theory Spec2Isabelle
  imports Main
begin

section \<open>Partitioned Parquet builds: \<open>elbow/builders.py\<close>\<close>

text \<open>
  A shallow embedding of \<open>build_parquet\<close> and \<open>_build_parquet_worker\<close>.
  The two functions orchestrate collaborators that live in other modules of the
  package (\<open>elbow.filters\<close>, \<open>elbow.pipeline\<close>, \<open>elbow.sinks\<close>, \<open>elbow.utils\<close>);
  those are either taken from the environment record below or modelled from the
  specification, and each such definition says so.
\<close>

subsection \<open>Data\<close>

text \<open>An input identifier (a path-like string handed to the extractor).\<close>

type_synonym ident = string

text \<open>
  A path of the output file system is the list of its components, innermost first:
  \<open>Path(output) / name\<close> is \<open>name # output\<close> and \<open>p.parent\<close> is \<open>tl p\<close>.
  The empty list is the directory that relative paths start from; it always exists.
\<close>

type_synonym path = "string list"

text \<open>A record as the extractor returns it: field name and value.\<close>

type_synonym record_t = "(string \<times> string) list"

datatype node = Dir | File "record_t list"

type_synonym fs = "path \<rightharpoonup> node"

text \<open>\<open>source: Union[str, Iterable[StrOrPath]]\<close>\<close>

datatype source = Pattern string | Paths "ident list"

text \<open>The extractor: \<open>None\<close> stands for a raised exception.\<close>

type_synonym extractor = "ident \<Rightarrow> record_t list option"

text \<open>\<open>datetime\<close>, at the resolution \<open>strftime("%Y%m%d%H%M%S")\<close> reads.\<close>

record datetime =
  year :: nat
  month :: nat
  day :: nat
  hour :: nat
  minute :: nat
  second :: nat

text \<open>
  The exceptions that can leave the two functions. The first three are the
  \<open>ValueError\<close>s of \<open>build_parquet\<close> (lines 89, 93 and 97); \<open>OutputExists\<close> and
  \<open>PartitionExists\<close> are the \<open>FileExistsError\<close>s of lines 104 and 169;
  \<open>MkdirFileExists\<close> is the \<open>FileExistsError\<close> of \<open>Path.mkdir\<close>;
  \<open>NotADirectory\<close>, \<open>FileNotFound\<close> and \<open>RmtreeFailed\<close> are the
  \<open>NotADirectoryError\<close>, \<open>FileNotFoundError\<close> and \<open>OSError\<close> of \<open>Path.mkdir\<close>
  and \<open>shutil.rmtree\<close>; \<open>ExtractionFailure\<close> is the exception that leaves
  \<open>Pipeline.run\<close> when the failure budget is exceeded, with the input it was raised for.
\<close>

datatype error =
    InvalidWorkers int
  | InvalidWorkerId int int
  | OverwriteWithWorkerId
  | OutputExists path
  | PartitionExists path
  | MkdirFileExists path
  | NotADirectory
  | FileNotFound
  | RmtreeFailed
  | ExtractionFailure ident

fun is_ValueError :: "error \<Rightarrow> bool" where
  "is_ValueError (InvalidWorkers w) = True"
| "is_ValueError (InvalidWorkerId i w) = True"
| "is_ValueError OverwriteWithWorkerId = True"
| "is_ValueError e = False"

text \<open>\<open>ProcessCounts\<close>: what one run of the pipeline returns.\<close>

record counts =
  total :: nat
  succeeded :: nat
  failed :: nat

text \<open>
  What the two functions take from outside \<open>builders.py\<close> and from the host:
  \<^item> \<open>cpu_count\<close>: the value \<open>elbow.utils.cpu_count()\<close> returns;
  \<^item> \<open>hash\<close>: the hash of an identifier that \<open>hash_partitioner\<close> uses;
  \<^item> \<open>now\<close>: the value of \<open>datetime.now()\<close> read by the worker with the given id;
  \<^item> \<open>iglob\<close>: the expansion of a pattern (\<open>iglob(source, recursive=True)\<close>);
  \<^item> \<open>from_parquet\<close>: the table \<open>FileModifiedIndex.from_parquet(output)\<close> builds from
    the dataset directory, identifier to recorded modification time;
  \<^item> \<open>mtime\<close>: the current modification time of an input.
\<close>

record env =
  cpu_count :: int
  hash :: "ident \<Rightarrow> int"
  now :: "int \<Rightarrow> datetime"
  iglob :: "string \<Rightarrow> ident list"
  from_parquet :: "fs \<Rightarrow> path \<Rightarrow> (ident \<rightharpoonup> int)"
  mtime :: "ident \<Rightarrow> int"

text \<open>
  The state the functions act on: the output file system, the warnings written by
  \<open>logging.warning\<close> in \<open>build_parquet\<close> (worker id and exception), and the ids of the
  worker executions started so far. The last field is a trace kept for the theorems;
  the program does not read it.
\<close>

record state =
  files :: fs
  log :: "(int \<times> error) list"
  started :: "int list"

type_synonym 'a result = "(error + 'a) \<times> state"

subsection \<open>The file system operations of \<open>pathlib\<close> and \<open>shutil\<close>\<close>

definition path_exists :: "fs \<Rightarrow> path \<Rightarrow> bool" where
  "path_exists fs p = (p = [] \<or> fs p \<noteq> None)"

definition is_file :: "fs \<Rightarrow> path \<Rightarrow> bool" where
  "is_file fs p = (p \<noteq> [] \<and> (case fs p of Some (File c) \<Rightarrow> True | _ \<Rightarrow> False))"


text \<open>\<open>within d q\<close>: \<open>q\<close> is \<open>d\<close> or lies below it.\<close>

fun within :: "path \<Rightarrow> path \<Rightarrow> bool" where
  "within d [] = (d = [])"
| "within d (c # q) = (c # q = d \<or> within d q)"

text \<open>
  \<open>Path.mkdir(parents=True, exist_ok=True)\<close>: an existing directory is accepted, an
  existing file raises \<open>FileExistsError\<close>, a file in the place of an ancestor raises
  \<open>NotADirectoryError\<close>, missing ancestors are created first.
\<close>

fun mkdir_parents :: "fs \<Rightarrow> path \<Rightarrow> error + fs" where
  "mkdir_parents fs [] = Inr fs"
| "mkdir_parents fs (c # parent) =
     (case fs (c # parent) of
        Some Dir \<Rightarrow> Inr fs
      | Some (File x) \<Rightarrow> Inl (MkdirFileExists (c # parent))
      | None \<Rightarrow>
          if is_file fs parent then Inl NotADirectory
          else (case mkdir_parents fs parent of
                  Inl e \<Rightarrow> Inl e
                | Inr fs' \<Rightarrow> Inr (fs'(c # parent \<mapsto> Dir))))"

text \<open>
  \<open>shutil.rmtree(p)\<close>: a missing path raises \<open>FileNotFoundError\<close> and a file raises
  \<open>NotADirectoryError\<close>, and nothing is removed; a directory is removed with
  everything below it. The starting directory \<open>[]\<close> is emptied, and removing the
  directory itself then fails.
\<close>

definition rmtree :: "fs \<Rightarrow> path \<Rightarrow> (error + unit) \<times> fs" where
  "rmtree fs p =
     (if \<not> path_exists fs p then (Inl FileNotFound, fs)
      else if is_file fs p then (Inl NotADirectory, fs)
      else (if p = [] then Inl RmtreeFailed else Inr (),
            (\<lambda>q. if within p q then None else fs q)))"

subsection \<open>String formatting\<close>

definition digit :: "nat \<Rightarrow> char" where
  "digit n = ''0123456789'' ! (n mod 10)"

text \<open>The decimal digits of a natural number, as \<open>str\<close> prints them.\<close>

function dec :: "nat \<Rightarrow> string" where
  "dec n = (if n < 10 then [digit n] else dec (n div 10) @ [digit (n mod 10)])"
  by pat_completeness auto
termination
  by (relation "measure (\<lambda>n. n)") auto

declare dec.simps [simp del]

definition zfill :: "nat \<Rightarrow> string \<Rightarrow> string" where
  "zfill w s = replicate (w - length s) (CHR ''0'') @ s"

text \<open>The format specification \<open>04d\<close>: at least four characters, the sign included.\<close>

definition format_04d :: "int \<Rightarrow> string" where
  "format_04d n =
     (if n < 0 then CHR ''-'' # zfill 3 (dec (nat (- n))) else zfill 4 (dec (nat n)))"

text \<open>
  \<open>start.strftime("%Y%m%d%H%M%S")\<close>: the year with four digits, the other fields
  with two. (A year below 1000, which no clock reads, is padded with zeros here.)
\<close>

definition strftime_YmdHMS :: "datetime \<Rightarrow> string" where
  "strftime_YmdHMS t =
     zfill 4 (dec (year t)) @ zfill 2 (dec (month t)) @ zfill 2 (dec (day t)) @
     zfill 2 (dec (hour t)) @ zfill 2 (dec (minute t)) @ zfill 2 (dec (second t))"

subsection \<open>Collaborators of other modules\<close>

text \<open>
  Modelled from the spec: \<open>elbow.filters.hash_partitioner\<close> is not in
  \<open>builders.py\<close>. The specification describes the predicate it returns (4.2, step 3):
  it keeps the items "whose deterministic hash of their identifier, modulo
  \<open>workers\<close>, equals \<open>worker_id\<close>". The hash function is a parameter.
\<close>

definition hash_partitioner :: "(ident \<Rightarrow> int) \<Rightarrow> int \<Rightarrow> int \<Rightarrow> ident \<Rightarrow> bool" where
  "hash_partitioner h worker_id workers x = (h x mod workers = worker_id)"

text \<open>
  Modelled from the spec: the predicate of \<open>elbow.filters.FileModifiedIndex\<close> is not in
  \<open>builders.py\<close>. The specification (4.2, step 2) keeps "only entries that are new or
  whose current modification time is newer than recorded"; \<open>idx\<close> is the table from
  identifier to recorded modification time, \<open>mt\<close> gives the current one.
\<close>

definition file_mod_index :: "(ident \<rightharpoonup> int) \<Rightarrow> (ident \<Rightarrow> int) \<Rightarrow> ident \<Rightarrow> bool" where
  "file_mod_index idx mt x = (case idx x of None \<Rightarrow> True | Some t \<Rightarrow> t < mt x)"

text \<open>
  Modelled from the spec: \<open>elbow.pipeline.Pipeline.run\<close> with a
  \<open>BufferedParquetWriter\<close> as its sink is not in \<open>builders.py\<close>. The specification
  (4.2, step 6) says: for each input the extractor is called; on success the records
  are buffered into the sink; on failure a failure counter is incremented; with
  \<open>max_failures = 0\<close> the first failure aborts, with \<open>max_failures = N > 0\<close> up to
  \<open>N\<close> failures are tolerated and exceeding \<open>N\<close> aborts, and with \<open>max_failures\<close>
  unset every failure is tolerated. The loop below carries the counts and the records
  the sink has received, and aborts as soon as the failure count exceeds the budget.
\<close>

fun pipeline_loop ::
  "extractor \<Rightarrow> int option \<Rightarrow> ident list \<Rightarrow> counts \<Rightarrow> record_t list
     \<Rightarrow> error + (counts \<times> record_t list)" where
  "pipeline_loop extract max_failures [] c sink = Inr (c, sink)"
| "pipeline_loop extract max_failures (x # xs) c sink =
     (case extract x of
        Some recs \<Rightarrow>
          pipeline_loop extract max_failures xs
            (c\<lparr>total := total c + 1, succeeded := succeeded c + 1\<rparr>) (sink @ recs)
      | None \<Rightarrow>
          (let c' = c\<lparr>total := total c + 1, failed := failed c + 1\<rparr>
           in case max_failures of
                None \<Rightarrow> pipeline_loop extract max_failures xs c' sink
              | Some n \<Rightarrow>
                  if n < int (failed c') then Inl (ExtractionFailure x)
                  else pipeline_loop extract max_failures xs c' sink))"

text \<open>
  Modelled from the spec: \<open>Pipeline.run\<close> starts the loop with the counts at zero and
  a sink that has received nothing.
\<close>

definition pipeline_run ::
  "ident list \<Rightarrow> extractor \<Rightarrow> int option \<Rightarrow> error + (counts \<times> record_t list)" where
  "pipeline_run src extract max_failures =
     pipeline_loop extract max_failures src \<lparr>total = 0, succeeded = 0, failed = 0\<rparr> []"

text \<open>
  Modelled from the spec: \<open>elbow.utils.atomicopen\<close> is not in \<open>builders.py\<close>. The
  specification (4.2, steps 5 and 7; 6) says that all writes go to a temporary location
  that is invisible under the final name, that only a successful, fully flushed
  completion publishes it at the final path, and that any failure before the commit
  leaves the final path absent. The temporary location is not a path of the model:
  a body that fails leaves the file system as it was, and a body that completes puts
  the written records at the final path.
\<close>

definition atomicopen ::
  "fs \<Rightarrow> path \<Rightarrow> (error + (counts \<times> record_t list)) \<Rightarrow> (error + counts) \<times> fs" where
  "atomicopen fs p body =
     (case body of
        Inl e \<Rightarrow> (Inl e, fs)
      | Inr (c, recs) \<Rightarrow> (Inr c, fs(p \<mapsto> File recs)))"


subsection \<open>\<open>_build_parquet_worker\<close>\<close>

text \<open>
  Lines 150 to 163: the source the worker hands to the pipeline. A pattern is expanded,
  the incremental filter is applied when \<open>incremental and output.exists()\<close>, and the
  partition filter when \<open>workers > 1\<close>.
\<close>

definition source_items :: "env \<Rightarrow> source \<Rightarrow> ident list" where
  "source_items e src = (case src of Pattern s \<Rightarrow> iglob e s | Paths xs \<Rightarrow> xs)"

definition worker_source ::
  "env \<Rightarrow> int \<Rightarrow> source \<Rightarrow> path \<Rightarrow> bool \<Rightarrow> int \<Rightarrow> fs \<Rightarrow> ident list" where
  "worker_source e worker_id src output incremental workers fs =
     (let src0 = source_items e src;
          src1 = (if incremental \<and> path_exists fs output
                  then filter (file_mod_index (from_parquet e fs output) (mtime e)) src0
                  else src0);
          src2 = (if 1 < workers
                  then filter (hash_partitioner (hash e) worker_id workers) src1
                  else src1)
      in src2)"

text \<open>
  Lines 166 and 167:
  \<open>output / f"part-{start_fmt}-{worker_id:04d}-of-{workers:04d}.parquet"\<close>.
\<close>

definition partition_path :: "env \<Rightarrow> int \<Rightarrow> path \<Rightarrow> int \<Rightarrow> path" where
  "partition_path e worker_id output workers =
     (let start_fmt = strftime_YmdHMS (now e worker_id)
      in (''part-'' @ start_fmt @ ''-'' @ format_04d worker_id @ ''-of-'' @
          format_04d workers @ ''.parquet'') # output)"

text \<open>
  The worker. It is entered in the trace, computes its source and its path, raises
  \<open>FileExistsError\<close> when the path exists, creates the parent directory, and runs
  the pipeline into the sink under \<open>atomicopen\<close>.
\<close>

definition build_parquet_worker ::
  "env \<Rightarrow> int \<Rightarrow> source \<Rightarrow> extractor \<Rightarrow> path \<Rightarrow> bool \<Rightarrow> int \<Rightarrow> int option
     \<Rightarrow> state \<Rightarrow> counts result" where
  "build_parquet_worker e worker_id src extract output incremental workers max_failures st0 =
     (let st = st0\<lparr>started := started st0 @ [worker_id]\<rparr>;
          src' = worker_source e worker_id src output incremental workers (files st);
          out = partition_path e worker_id output workers
      in if path_exists (files st) out then (Inl (PartitionExists out), st)
         else (case mkdir_parents (files st) (tl out) of
                 Inl err \<Rightarrow> (Inl err, st)
               | Inr fs1 \<Rightarrow>
                   (case atomicopen fs1 out (pipeline_run src' extract max_failures) of
                      (r, fs2) \<Rightarrow> (r, st\<lparr>files := fs2\<rparr>))))"

subsection \<open>\<open>build_parquet\<close>\<close>

text \<open>Lines 84 to 89.\<close>

definition resolve_workers :: "env \<Rightarrow> int option \<Rightarrow> error + int" where
  "resolve_workers e workers =
     (case workers of
        None \<Rightarrow> Inr 1
      | Some w \<Rightarrow>
          if w = - 1 then Inr (cpu_count e)
          else if w \<le> 0 then Inl (InvalidWorkers w)
          else Inr w)"

text \<open>Lines 91 to 97, with \<open>workers\<close> already resolved.\<close>

definition check_worker_id :: "int option \<Rightarrow> int \<Rightarrow> bool \<Rightarrow> error + unit" where
  "check_worker_id worker_id workers overwrite =
     (case worker_id of
        None \<Rightarrow> Inr ()
      | Some i \<Rightarrow>
          if \<not> (0 \<le> i \<and> i < workers) then Inl (InvalidWorkerId i workers)
          else if overwrite then Inl OverwriteWithWorkerId
          else Inr ())"

text \<open>Lines 99 to 104.\<close>

definition prepare_output :: "path \<Rightarrow> bool \<Rightarrow> bool \<Rightarrow> int option \<Rightarrow> state \<Rightarrow> unit result" where
  "prepare_output output incremental overwrite worker_id st =
     (let inplace = (incremental \<or> worker_id \<noteq> None)
      in if path_exists (files st) output \<and> \<not> inplace then
           if overwrite then
             (case rmtree (files st) output of (r, fs') \<Rightarrow> (r, st\<lparr>files := fs'\<rparr>))
           else (Inl (OutputExists output), st)
         else (Inr (), st))"

text \<open>
  Lines 118 to 128: one execution per id of \<open>range(workers)\<close>; an exception of an
  execution is caught and logged with its id, and the loop goes on. The processes of
  the pool are modelled as running one after the other, in the order of submission,
  each as one step on the state.
\<close>

fun run_pool :: "(int \<Rightarrow> state \<Rightarrow> counts result) \<Rightarrow> int list \<Rightarrow> state \<Rightarrow> state" where
  "run_pool worker [] st = st"
| "run_pool worker (ii # ids) st =
     (case worker ii st of
        (Inl exc, st') \<Rightarrow> run_pool worker ids (st'\<lparr>log := log st' @ [(ii, exc)]\<rparr>)
      | (Inr c, st') \<Rightarrow> run_pool worker ids st')"

text \<open>A call in the main process: the exception propagates, the counts are dropped.\<close>

definition run_inline :: "counts result \<Rightarrow> unit result" where
  "run_inline r = (case r of (Inl exc, st') \<Rightarrow> (Inl exc, st') | (Inr c, st') \<Rightarrow> (Inr (), st'))"

text \<open>Lines 117 to 132.\<close>

definition dispatch ::
  "(int \<Rightarrow> state \<Rightarrow> counts result) \<Rightarrow> int \<Rightarrow> int option \<Rightarrow> state \<Rightarrow> unit result" where
  "dispatch worker workers worker_id st =
     (if worker_id = None \<and> 1 < workers then
        (Inr (), run_pool worker (map int [0..<nat workers]) st)
      else (case worker_id of
              Some i \<Rightarrow> run_inline (worker i st)
            | None \<Rightarrow> run_inline (worker 0 st)))"

definition build_parquet ::
  "env \<Rightarrow> source \<Rightarrow> extractor \<Rightarrow> path \<Rightarrow> bool \<Rightarrow> bool \<Rightarrow> int option \<Rightarrow> int option
     \<Rightarrow> int option \<Rightarrow> state \<Rightarrow> unit result" where
  "build_parquet e src extract output incremental overwrite workers worker_id max_failures st =
     (case resolve_workers e workers of
        Inl err \<Rightarrow> (Inl err, st)
      | Inr w \<Rightarrow>
          (case check_worker_id worker_id w overwrite of
             Inl err \<Rightarrow> (Inl err, st)
           | Inr u \<Rightarrow>
               (case prepare_output output incremental overwrite worker_id st of
                  (Inl err, st') \<Rightarrow> (Inl err, st')
                | (Inr u', st') \<Rightarrow>
                    dispatch
                      (\<lambda>i. build_parquet_worker e i src extract output incremental w max_failures)
                      w worker_id st')))"

subsection \<open>The naming convention, as the specification writes it\<close>

text \<open>\<open>digits_fixed w n\<close>: the last \<open>w\<close> decimal digits of \<open>n\<close>.\<close>

primrec digits_fixed :: "nat \<Rightarrow> nat \<Rightarrow> string" where
  "digits_fixed 0 n = []"
| "digits_fixed (Suc w) n = digits_fixed w (n div 10) @ [digit (n mod 10)]"

text \<open>
  The pattern of the specification, \<open>part-{YYYYMMDDHHMMSS}-{worker_id:04d}-of-{workers:04d}\<close>
  with the extension \<open>parquet\<close>, read as fields of fixed width: four digits of year,
  two each of month, day, hour, minute and second, four of the worker id and four of
  the number of workers.
\<close>

definition spec_partition_name :: "datetime \<Rightarrow> int \<Rightarrow> int \<Rightarrow> string" where
  "spec_partition_name t worker_id workers =
     ''part-'' @ digits_fixed 4 (year t) @ digits_fixed 2 (month t) @ digits_fixed 2 (day t) @
     digits_fixed 2 (hour t) @ digits_fixed 2 (minute t) @ digits_fixed 2 (second t) @
     ''-'' @ digits_fixed 4 (nat worker_id) @ ''-of-'' @ digits_fixed 4 (nat workers) @
     ''.parquet''"

subsection \<open>Example data\<close>

text \<open>
  A host with four cores whose hash is the length of the identifier, a clock that
  reads 2024-03-05 07:08:09, an index that has recorded two inputs at time 5, and
  an extractor that fails on the identifiers that start with \<open>bad\<close>.
\<close>

definition example_env :: env where
  "example_env =
     \<lparr>cpu_count = 4,
      hash = (\<lambda>x. int (length x)),
      now = (\<lambda>i. \<lparr>year = 2024, month = 3, day = 5, hour = 7, minute = 8, second = 9\<rparr>),
      iglob = (\<lambda>s. []),
      from_parquet = (\<lambda>fs p. [''old'' \<mapsto> 5, ''changed'' \<mapsto> 5]),
      mtime = (\<lambda>x. if x = ''changed'' then 9 else 5)\<rparr>"

definition example_extract :: extractor where
  "example_extract x = (if take 3 x = ''bad'' then None else Some [[(''file_path'', x)]])"

definition example_state :: state where
  "example_state = \<lparr>files = Map.empty, log = [], started = []\<rparr>"


text \<open>A state in which the partition of worker 0 of 1 at the example time exists.\<close>

definition example_state_collision :: state where
  "example_state_collision =
     \<lparr>files = [[''out''] \<mapsto> Dir,
               [''part-20240305070809-0000-of-0001.parquet'', ''out''] \<mapsto> File []],
      log = [], started = []\<rparr>"

section \<open>Lemmas\<close>

subsection \<open>Lemmas about the source, the names and the file system\<close>

lemma worker_source_filter:
  "worker_source e wid src out inc W fs =
     filter (\<lambda>x. (inc \<and> path_exists fs out \<longrightarrow> file_mod_index (from_parquet e fs out) (mtime e) x)
                \<and> (1 < W \<longrightarrow> hash_partitioner (hash e) wid W x))
       (source_items e src)"
  by (cases "inc \<and> path_exists fs out"; cases "1 < W")
     (auto simp: worker_source_def Let_def intro: filter_cong)

lemma digits_fixed_zero: "digits_fixed w 0 = replicate w (CHR ''0'')"
  by (induction w) (simp_all add: digit_def replicate_append_same)

lemma length_dec_pos: "0 < length (dec n)"
  by (subst dec.simps) simp

lemma zfill_snoc: "0 < length xs \<Longrightarrow> zfill (Suc w) (xs @ [c]) = zfill w xs @ [c]"
  by (simp add: zfill_def)

lemma zfill_dec_fixed: "n < 10 ^ Suc w \<Longrightarrow> zfill (Suc w) (dec n) = digits_fixed (Suc w) n"
proof (induction w arbitrary: n)
  case 0
  then show ?case by (subst dec.simps) (simp add: zfill_def digit_def)
next
  case (Suc w)
  show ?case
  proof (cases "n < 10")
    case True
    then have "dec n = [digit n]" by (subst dec.simps) simp
    moreover have "n div 10 = 0" using True by simp
    moreover have "digit (n mod 10) = digit n" by (simp add: digit_def)
    ultimately show ?thesis
      by (simp add: zfill_def digits_fixed_zero replicate_append_same)
  next
    case False
    then have d: "dec n = dec (n div 10) @ [digit (n mod 10)]" by (subst dec.simps) simp
    have "n div 10 < 10 ^ Suc w" using Suc.prems by simp
    then have "zfill (Suc w) (dec (n div 10)) = digits_fixed (Suc w) (n div 10)"
      by (rule Suc.IH)
    moreover have "zfill (Suc (Suc w)) (dec (n div 10) @ [digit (n mod 10)])
        = zfill (Suc w) (dec (n div 10)) @ [digit (n mod 10)]"
      by (rule zfill_snoc) (rule length_dec_pos)
    ultimately show ?thesis
      unfolding d by simp
  qed
qed

lemma format_04d_fixed: "0 \<le> n \<Longrightarrow> n < 10000 \<Longrightarrow> format_04d n = digits_fixed 4 (nat n)"
  using zfill_dec_fixed [of "nat n" 3] by (simp add: format_04d_def)



lemma replicate_num: "replicate (numeral k) x = x # replicate (pred_numeral k) x"
  by (simp add: numeral_eq_Suc)

lemmas eval_format =
  partition_path_def strftime_YmdHMS_def format_04d_def zfill_def dec.simps digit_def replicate_num

lemma zfill2_dec: "n < 100 \<Longrightarrow> zfill 2 (dec n) = digits_fixed 2 n"
proof -
  assume "n < 100"
  then have "n < 10 ^ Suc (Suc 0)" by simp
  then have "zfill (Suc (Suc 0)) (dec n) = digits_fixed (Suc (Suc 0)) n"
    by (rule zfill_dec_fixed)
  then show ?thesis by (simp only: numeral_2_eq_2)
qed

lemma zfill4_dec: "n < 10000 \<Longrightarrow> zfill 4 (dec n) = digits_fixed 4 n"
  using zfill_dec_fixed [of n 3] by simp

lemma strftime_fixed:
  assumes "year t < 10000" "month t < 100" "day t < 100" "hour t < 100" "minute t < 100"
    "second t < 100"
  shows "strftime_YmdHMS t =
     digits_fixed 4 (year t) @ digits_fixed 2 (month t) @ digits_fixed 2 (day t) @
     digits_fixed 2 (hour t) @ digits_fixed 2 (minute t) @ digits_fixed 2 (second t)"
  using assms by (simp only: strftime_YmdHMS_def zfill2_dec zfill4_dec)



lemma mkdir_parents_change:
  "mkdir_parents fs q = Inr fs' \<Longrightarrow> fs' p = fs p \<or> fs' p = Some Dir"
proof (induction q arbitrary: fs')
  case Nil
  then show ?case by simp
next
  case (Cons c parent)
  then show ?case
    by (auto split: option.splits node.splits if_splits sum.splits)
qed

lemma partition_path_Cons: "tl (partition_path e wid out W) = out"
  by (simp add: partition_path_def Let_def)


lemma worker_cases:
  "build_parquet_worker e wid src ex out inc W mf st =
     (let st1 = st\<lparr>started := started st @ [wid]\<rparr>; p = partition_path e wid out W in
      if path_exists (files st) p then (Inl (PartitionExists p), st1)
      else case mkdir_parents (files st) out of
             Inl err \<Rightarrow> (Inl err, st1)
           | Inr fs1 \<Rightarrow>
               (case pipeline_run (worker_source e wid src out inc W (files st)) ex mf of
                  Inl err \<Rightarrow> (Inl err, st1\<lparr>files := fs1\<rparr>)
                | Inr (c, recs) \<Rightarrow> (Inr c, st1\<lparr>files := fs1(p \<mapsto> File recs)\<rparr>)))"
  by (simp add: build_parquet_worker_def Let_def partition_path_Cons atomicopen_def
      split: sum.splits prod.splits)

lemma worker_log: "log (snd (build_parquet_worker e wid src ex out inc W mf st)) = log st"
  by (simp add: worker_cases Let_def split: sum.splits prod.splits)

lemma worker_started:
  "started (snd (build_parquet_worker e wid src ex out inc W mf st)) = started st @ [wid]"
  by (simp add: worker_cases Let_def split: sum.splits prod.splits)

lemma digits_fixed_num:
  "digits_fixed (numeral k) n = digits_fixed (pred_numeral k) (n div 10) @ [digit (n mod 10)]"
  using digits_fixed.simps(2) [of "pred_numeral k" n] by (simp only: numeral_eq_Suc [symmetric])

lemma partition_path_spec:
  assumes "year (now e wid) < 10000" "month (now e wid) < 100" "day (now e wid) < 100"
    "hour (now e wid) < 100" "minute (now e wid) < 100" "second (now e wid) < 100"
    "0 \<le> wid" "wid < 10000" "0 \<le> W" "W < 10000"
  shows "partition_path e wid out W = spec_partition_name (now e wid) wid W # out"
  using assms
  by (simp add: partition_path_def Let_def spec_partition_name_def strftime_fixed
      format_04d_fixed del: digits_fixed.simps)



subsection \<open>Lemmas about \<open>build_parquet\<close>\<close>

lemma prepare_output_inplace:
  "inc \<or> wid \<noteq> None \<Longrightarrow> prepare_output out inc ovw wid st = (Inr (), st)"
  by (auto simp: prepare_output_def)

lemma build_parquet_checked:
  "resolve_workers e workers = Inr W \<Longrightarrow> check_worker_id wid W ovw = Inr u \<Longrightarrow>
   build_parquet e src ex out inc ovw workers wid mf st =
     (case prepare_output out inc ovw wid st of
        (Inl err, st') \<Rightarrow> (Inl err, st')
      | (Inr u', st') \<Rightarrow>
          dispatch (\<lambda>i. build_parquet_worker e i src ex out inc W mf) W wid st')"
  by (simp add: build_parquet_def)

lemma run_pool_append: "run_pool w (xs @ ys) st = run_pool w ys (run_pool w xs st)"
  by (induction xs arbitrary: st) (auto split: prod.splits sum.splits)

lemma run_pool_single_started:
  "started (run_pool w [i] st) = started (snd (w i st))"
  by (auto split: prod.splits sum.splits)

lemma run_pool_single_log:
  "log (run_pool w [i] st) =
     log (snd (w i st)) @ (case fst (w i st) of Inl exc \<Rightarrow> [(i, exc)] | Inr c \<Rightarrow> [])"
  by (auto split: prod.splits sum.splits)

lemma pool_started:
  assumes "\<And>i s. started (snd (w i s)) = started s @ [i]"
  shows "started (run_pool w (map int [0..<n]) st) = started st @ map int [0..<n]"
proof (induction n)
  case 0
  show ?case by simp
next
  case (Suc n)
  have "started (run_pool w (map int [0..<Suc n]) st)
      = started (run_pool w [int n] (run_pool w (map int [0..<n]) st))"
    by (simp add: run_pool_append)
  also have "\<dots> = started (run_pool w (map int [0..<n]) st) @ [int n]"
    by (simp only: run_pool_single_started assms)
  finally show ?case using Suc.IH by simp
qed

lemma pool_log:
  assumes "\<And>i s. log (snd (w i s)) = log s"
  shows "log (run_pool w (map int [0..<n]) st) =
     log st @ concat (map (\<lambda>k. case fst (w (int k) (run_pool w (map int [0..<k]) st)) of
                                   Inl exc \<Rightarrow> [(int k, exc)] | Inr c \<Rightarrow> []) [0..<n])"
proof (induction n)
  case 0
  show ?case by simp
next
  case (Suc n)
  have "log (run_pool w (map int [0..<Suc n]) st)
      = log (run_pool w [int n] (run_pool w (map int [0..<n]) st))"
    by (simp add: run_pool_append)
  also have "\<dots> = log (run_pool w (map int [0..<n]) st) @
      (case fst (w (int n) (run_pool w (map int [0..<n]) st)) of
         Inl exc \<Rightarrow> [(int n, exc)] | Inr c \<Rightarrow> [])"
    by (simp only: run_pool_single_log assms)
  finally show ?case using Suc.IH by simp
qed

lemma run_inline_fst:
  "fst (run_inline r) = (case fst r of Inl exc \<Rightarrow> Inl exc | Inr c \<Rightarrow> Inr ())"
  by (auto simp: run_inline_def split: prod.splits sum.splits)

lemma run_inline_snd: "snd (run_inline r) = snd r"
  by (auto simp: run_inline_def split: prod.splits sum.splits)

lemma upt_3: "[0..<3] = [0, 1, 2]"
  by (simp add: upt_rec)

lemma upt_2: "[0..<2] = [0, 1]"
  by (simp add: upt_rec)

lemmas eval_build =
  worker_cases Let_def path_exists_def is_file_def pipeline_run_def worker_source_def
  source_items_def hash_partitioner_def file_mod_index_def

lemma resolve_workers_invalid:
  "w \<le> 0 \<Longrightarrow> w \<noteq> - 1 \<Longrightarrow> resolve_workers e (Some w) = Inl (InvalidWorkers w)"
  by (simp add: resolve_workers_def)



section \<open>The claims\<close>

subsection \<open>C1: the partitions are disjoint and cover the source\<close>

text \<open>
  C1. For a fixed number of workers \<open>W > 1\<close>, a fixed hash function and a fixed
  source, the sources that the workers \<open>0, ..., W - 1\<close> keep after the partition
  filter are pairwise disjoint, and their union is the source that a run without
  partitioning (one worker) processes: every item is kept by exactly one worker.
  The source may be a pattern or a list, with or without the incremental filter,
  as long as all workers read the same file system.
\<close>

theorem partition_complete_disjoint:
  assumes W: "1 < W"
  shows "(\<Union>i\<in>{0..<W}. set (worker_source e i src out inc W fs))
           = set (worker_source e 0 src out inc 1 fs)
       \<and> (\<forall>i\<in>{0..<W}. \<forall>j\<in>{0..<W}. i \<noteq> j \<longrightarrow>
            set (worker_source e i src out inc W fs) \<inter> set (worker_source e j src out inc W fs) = {})
       \<and> (\<forall>x\<in>set (worker_source e 0 src out inc 1 fs).
            \<exists>!i. i \<in> {0..<W} \<and> x \<in> set (worker_source e i src out inc W fs))"
proof (intro conjI)
  let ?S = "set (worker_source e 0 src out inc 1 fs)"
  have mem: "x \<in> set (worker_source e i src out inc W fs) \<longleftrightarrow> x \<in> ?S \<and> hash e x mod W = i" for x i
    using W by (auto simp: worker_source_filter hash_partitioner_def)
  have rng: "hash e x mod W \<in> {0..<W}" for x
    using W by simp
  show "(\<Union>i\<in>{0..<W}. set (worker_source e i src out inc W fs)) = ?S"
    using rng by (auto simp: mem)
  show "\<forall>i\<in>{0..<W}. \<forall>j\<in>{0..<W}. i \<noteq> j \<longrightarrow>
            set (worker_source e i src out inc W fs) \<inter> set (worker_source e j src out inc W fs) = {}"
    by (auto simp: mem)
  show "\<forall>x\<in>?S. \<exists>!i. i \<in> {0..<W} \<and> x \<in> set (worker_source e i src out inc W fs)"
    using rng by (auto simp: mem)
qed

text \<open>
  Two workers on three inputs, hashed by their length: worker 0 keeps \<open>bb\<close>, worker 1
  keeps \<open>a\<close> and \<open>ccc\<close>.
\<close>

theorem partition_complete_disjoint_witness:
  "(1::int) < 2
   \<and> worker_source example_env 0 (Paths [''a'', ''bb'', ''ccc'']) [''out''] False 1 Map.empty
       = [''a'', ''bb'', ''ccc'']
   \<and> worker_source example_env 0 (Paths [''a'', ''bb'', ''ccc'']) [''out''] False 2 Map.empty
       = [''bb'']
   \<and> worker_source example_env 1 (Paths [''a'', ''bb'', ''ccc'']) [''out''] False 2 Map.empty
       = [''a'', ''ccc'']
   \<and> (\<Union>i\<in>{0..<2}.
         set (worker_source example_env i (Paths [''a'', ''bb'', ''ccc'']) [''out''] False 2 Map.empty))
       = set (worker_source example_env 0 (Paths [''a'', ''bb'', ''ccc'']) [''out''] False 1 Map.empty)"
proof -
  have h: "(1::int) < 2" by simp
  have ev: "worker_source example_env 0 (Paths [''a'', ''bb'', ''ccc'']) [''out''] False 1 Map.empty
       = [''a'', ''bb'', ''ccc'']"
    "worker_source example_env 0 (Paths [''a'', ''bb'', ''ccc'']) [''out''] False 2 Map.empty
       = [''bb'']"
    "worker_source example_env 1 (Paths [''a'', ''bb'', ''ccc'']) [''out''] False 2 Map.empty
       = [''a'', ''ccc'']"
    by (simp_all add: worker_source_def source_items_def example_env_def hash_partitioner_def)
  from partition_complete_disjoint [OF h, where e = example_env
      and src = "Paths [''a'', ''bb'', ''ccc'']" and out = "[''out'']" and inc = False
      and fs = Map.empty]
  have "(\<Union>i\<in>{0..<2}.
         set (worker_source example_env i (Paths [''a'', ''bb'', ''ccc'']) [''out''] False 2 Map.empty))
       = set (worker_source example_env 0 (Paths [''a'', ''bb'', ''ccc'']) [''out''] False 1 Map.empty)"
    by (rule conjunct1)
  with h ev show ?thesis by (intro conjI)
qed

subsection \<open>C2: an aborted run leaves no file at the final path\<close>




subsection \<open>C3: the name of the partition file\<close>

text \<open>
  C3. Every worker computes its output path as the file named
  \<open>part-{YYYYMMDDHHMMSS}-{worker_id:04d}-of-{workers:04d}.parquet\<close>, the time being
  the start of the run at the resolution of a second, directly inside the output
  directory. With a four-digit year and a worker id and a number of workers below
  10000 this is the name of the specification with fields of fixed width. A worker
  that finds its path taken raises \<open>FileExistsError\<close> and leaves the file system as it
  is; a worker that completes has written its file at this path, and anything else it
  has changed is a directory it has created.
\<close>

theorem partition_path_named:
  "partition_path e wid out W =
     (''part-'' @ strftime_YmdHMS (now e wid) @ ''-'' @ format_04d wid @ ''-of-'' @
      format_04d W @ ''.parquet'') # out
   \<and> tl (partition_path e wid out W) = out
   \<and> (year (now e wid) < 10000 \<and> month (now e wid) < 100 \<and> day (now e wid) < 100 \<and>
      hour (now e wid) < 100 \<and> minute (now e wid) < 100 \<and> second (now e wid) < 100 \<and>
      0 \<le> wid \<and> wid < 10000 \<and> 0 \<le> W \<and> W < 10000 \<longrightarrow>
        partition_path e wid out W = spec_partition_name (now e wid) wid W # out)
   \<and> (path_exists (files st) (partition_path e wid out W) \<longrightarrow>
        build_parquet_worker e wid src ex out inc W mf st =
          (Inl (PartitionExists (partition_path e wid out W)),
           st\<lparr>started := started st @ [wid]\<rparr>))
   \<and> (build_parquet_worker e wid src ex out inc W mf st = (Inr c, st') \<longrightarrow>
        (\<exists>recs. files st' (partition_path e wid out W) = Some (File recs)) \<and>
        (\<forall>q. q \<noteq> partition_path e wid out W \<longrightarrow>
           files st' q = files st q \<or> files st' q = Some Dir))"
proof (intro conjI impI)
  show "partition_path e wid out W =
     (''part-'' @ strftime_YmdHMS (now e wid) @ ''-'' @ format_04d wid @ ''-of-'' @
      format_04d W @ ''.parquet'') # out"
    by (simp add: partition_path_def Let_def)
  show "tl (partition_path e wid out W) = out"
    by (rule partition_path_Cons)
next
  assume "year (now e wid) < 10000 \<and> month (now e wid) < 100 \<and> day (now e wid) < 100 \<and>
      hour (now e wid) < 100 \<and> minute (now e wid) < 100 \<and> second (now e wid) < 100 \<and>
      0 \<le> wid \<and> wid < 10000 \<and> 0 \<le> W \<and> W < 10000"
  then show "partition_path e wid out W = spec_partition_name (now e wid) wid W # out"
    by (intro partition_path_spec) simp_all
next
  assume "path_exists (files st) (partition_path e wid out W)"
  then show "build_parquet_worker e wid src ex out inc W mf st =
          (Inl (PartitionExists (partition_path e wid out W)),
           st\<lparr>started := started st @ [wid]\<rparr>)"
    by (simp add: worker_cases Let_def)
next
  assume run: "build_parquet_worker e wid src ex out inc W mf st = (Inr c, st')"
  then show "\<exists>recs. files st' (partition_path e wid out W) = Some (File recs)"
    by (auto simp: worker_cases Let_def split: if_splits sum.splits prod.splits)
  show "\<forall>q. q \<noteq> partition_path e wid out W \<longrightarrow>
           files st' q = files st q \<or> files st' q = Some Dir"
  proof (intro allI impI)
    fix q
    assume "q \<noteq> partition_path e wid out W"
    then show "files st' q = files st q \<or> files st' q = Some Dir"
      using run mkdir_parents_change [of "files st" out _ q]
      by (auto simp: worker_cases Let_def split: if_splits sum.splits prod.splits)
  qed
qed

text \<open>
  Worker 3 of 16 at the example time writes
  \<open>out/part-20240305070809-0003-of-0016.parquet\<close>. Worker 0 of 1 fails when its
  partition exists, and writes two records at its path when it does not.
\<close>

theorem partition_path_named_witness:
  "partition_path example_env 3 [''out''] 16
     = [''part-20240305070809-0003-of-0016.parquet'', ''out'']
   \<and> spec_partition_name (now example_env 3) 3 16 = ''part-20240305070809-0003-of-0016.parquet''
   \<and> path_exists (files example_state_collision) (partition_path example_env 0 [''out''] 1)
   \<and> build_parquet_worker example_env 0 (Paths [''ok1'', ''ok2'']) example_extract [''out''] False 1
         None example_state_collision
       = (Inl (PartitionExists [''part-20240305070809-0000-of-0001.parquet'', ''out'']),
          example_state_collision\<lparr>started := [0]\<rparr>)
   \<and> build_parquet_worker example_env 0 (Paths [''ok1'', ''ok2'']) example_extract [''out''] False 1
         None example_state
       = (Inr \<lparr>total = 2, succeeded = 2, failed = 0\<rparr>,
          \<lparr>files = [[''out''] \<mapsto> Dir,
                    [''part-20240305070809-0000-of-0001.parquet'', ''out'']
                      \<mapsto> File [[(''file_path'', ''ok1'')], [(''file_path'', ''ok2'')]]],
           log = [], started = [0]\<rparr>)
   \<and> (\<exists>recs. ([[''out''] \<mapsto> Dir,
                 [''part-20240305070809-0000-of-0001.parquet'', ''out'']
                   \<mapsto> File [[(''file_path'', ''ok1'')], [(''file_path'', ''ok2'')]]])
               (partition_path example_env 0 [''out''] 1) = Some (File recs))"
proof -
  have p0: "partition_path example_env 0 [''out''] 1
     = [''part-20240305070809-0000-of-0001.parquet'', ''out'']"
    by (simp add: eval_format example_env_def)
  have rng: "year (now example_env 3) < 10000 \<and> month (now example_env 3) < 100 \<and>
      day (now example_env 3) < 100 \<and> hour (now example_env 3) < 100 \<and>
      minute (now example_env 3) < 100 \<and> second (now example_env 3) < 100 \<and>
      (0::int) \<le> 3 \<and> (3::int) < 10000 \<and> (0::int) \<le> 16 \<and> (16::int) < 10000"
    by (simp add: example_env_def)
  note A = partition_path_named [where e = example_env and wid = 3 and out = "[''out'']"
      and W = 16]
  have a1: "partition_path example_env 3 [''out''] 16
     = [''part-20240305070809-0003-of-0016.parquet'', ''out'']"
    by (simp add: eval_format example_env_def)
  from A [THEN conjunct2, THEN conjunct2, THEN conjunct1, rule_format, OF rng]
  have a2: "spec_partition_name (now example_env 3) 3 16
      = ''part-20240305070809-0003-of-0016.parquet''"
    unfolding a1 by simp
  have ex: "path_exists (files example_state_collision) (partition_path example_env 0 [''out''] 1)"
    by (simp add: p0 path_exists_def example_state_collision_def)
  note B = partition_path_named [where e = example_env and wid = 0 and out = "[''out'']"
      and W = 1 and src = "Paths [''ok1'', ''ok2'']" and ex = example_extract and inc = False
      and mf = None]
  from B [where st = example_state_collision,
      THEN conjunct2, THEN conjunct2, THEN conjunct2, THEN conjunct1, rule_format, OF ex]
  have a3: "build_parquet_worker example_env 0 (Paths [''ok1'', ''ok2'']) example_extract [''out''] False 1
         None example_state_collision
       = (Inl (PartitionExists [''part-20240305070809-0000-of-0001.parquet'', ''out'']),
          example_state_collision\<lparr>started := [0]\<rparr>)"
    by (simp add: p0 example_state_collision_def)
  have run: "build_parquet_worker example_env 0 (Paths [''ok1'', ''ok2'']) example_extract [''out''] False 1
         None example_state
       = (Inr \<lparr>total = 2, succeeded = 2, failed = 0\<rparr>,
          \<lparr>files = [[''out''] \<mapsto> Dir,
                    [''part-20240305070809-0000-of-0001.parquet'', ''out'']
                      \<mapsto> File [[(''file_path'', ''ok1'')], [(''file_path'', ''ok2'')]]],
           log = [], started = [0]\<rparr>)"
    unfolding worker_cases p0
    by (simp add: Let_def path_exists_def is_file_def pipeline_run_def worker_source_def
        source_items_def example_extract_def example_state_def)
  from B [where st = example_state,
      THEN conjunct2, THEN conjunct2, THEN conjunct2, THEN conjunct2, rule_format, OF run]
  have a4: "\<exists>recs. ([[''out''] \<mapsto> Dir,
                 [''part-20240305070809-0000-of-0001.parquet'', ''out'']
                   \<mapsto> File [[(''file_path'', ''ok1'')], [(''file_path'', ''ok2'')]]])
               (partition_path example_env 0 [''out''] 1) = Some (File recs)"
    by simp
  from a1 a2 ex a3 run a4 show ?thesis by (intro conjI)
qed

subsection \<open>C4: what happens to an existing output directory\<close>




subsection \<open>C5: the configuration checks\<close>

text \<open>
  C5. \<open>workers=None\<close> and \<open>workers=1\<close> resolve to one worker, run in the main process;
  \<open>workers=-1\<close> resolves to \<open>cpu_count()\<close>; any other \<open>workers \<le> 0\<close> raises
  \<open>ValueError\<close>; a \<open>worker_id\<close> outside \<open>0 \<le> worker_id < workers\<close> raises
  \<open>ValueError\<close>; a \<open>worker_id\<close> together with \<open>overwrite=True\<close> raises
  \<open>ValueError\<close>. Each of these errors leaves the state as it was: no file is
  touched and no worker is started.
\<close>

theorem configuration_checks:
  "resolve_workers e None = Inr 1
   \<and> resolve_workers e (Some 1) = Inr 1
   \<and> ((workers = None \<or> workers = Some 1) \<and>
       prepare_output out inc ovw None st = (Inr (), st1) \<longrightarrow>
         build_parquet e src ex out inc ovw workers None mf st =
           run_inline (build_parquet_worker e 0 src ex out inc 1 mf st1))
   \<and> resolve_workers e (Some (- 1)) = Inr (cpu_count e)
   \<and> (w \<le> 0 \<and> w \<noteq> - 1 \<longrightarrow>
         build_parquet e src ex out inc ovw (Some w) wid mf st = (Inl (InvalidWorkers w), st) \<and>
         is_ValueError (InvalidWorkers w))
   \<and> (resolve_workers e workers = Inr W \<and> \<not> (0 \<le> i \<and> i < W) \<longrightarrow>
         build_parquet e src ex out inc ovw workers (Some i) mf st =
           (Inl (InvalidWorkerId i W), st) \<and>
         is_ValueError (InvalidWorkerId i W))
   \<and> (\<exists>err. build_parquet e src ex out inc True workers' (Some j) mf st = (Inl err, st) \<and>
             is_ValueError err)"
proof (intro conjI impI)
  show "resolve_workers e None = Inr 1" "resolve_workers e (Some 1) = Inr 1"
    "resolve_workers e (Some (- 1)) = Inr (cpu_count e)"
    by (simp_all add: resolve_workers_def)
next
  assume a: "(workers = None \<or> workers = Some 1) \<and>
       prepare_output out inc ovw None st = (Inr (), st1)"
  then have r: "resolve_workers e workers = Inr 1"
    by (auto simp: resolve_workers_def)
  have c: "check_worker_id None 1 ovw = Inr ()"
    by (simp add: check_worker_id_def)
  show "build_parquet e src ex out inc ovw workers None mf st =
           run_inline (build_parquet_worker e 0 src ex out inc 1 mf st1)"
    using a by (simp add: build_parquet_checked [OF r c] dispatch_def)
next
  assume "w \<le> 0 \<and> w \<noteq> - 1"
  then show "build_parquet e src ex out inc ovw (Some w) wid mf st = (Inl (InvalidWorkers w), st)"
    by (simp add: build_parquet_def resolve_workers_invalid)
  show "is_ValueError (InvalidWorkers w)" by simp
next
  assume "resolve_workers e workers = Inr W \<and> \<not> (0 \<le> i \<and> i < W)"
  then show "build_parquet e src ex out inc ovw workers (Some i) mf st =
           (Inl (InvalidWorkerId i W), st)"
    by (auto simp: build_parquet_def check_worker_id_def)
  show "is_ValueError (InvalidWorkerId i W)" by simp
next
  show "\<exists>err. build_parquet e src ex out inc True workers' (Some j) mf st = (Inl err, st) \<and>
             is_ValueError err"
    by (cases "resolve_workers e workers'")
       (auto simp: build_parquet_def check_worker_id_def resolve_workers_def
          split: option.splits if_splits)
qed

text \<open>
  The rejections the specification lists: \<open>workers=0\<close>; \<open>workers=2, worker_id=3\<close>;
  \<open>overwrite=True, worker_id=0\<close>. And a call with \<open>workers=None\<close> runs worker 0 of 1.
\<close>

theorem configuration_checks_witness:
  "((None :: int option) = None \<or> (None :: int option) = Some 1) \<and>
     prepare_output [''out''] False False None example_state = (Inr (), example_state)
   \<and> build_parquet example_env (Paths [''ok1'']) example_extract [''out''] False False None None
         None example_state
       = run_inline (build_parquet_worker example_env 0 (Paths [''ok1'']) example_extract [''out'']
                       False 1 None example_state)
   \<and> ((0::int) \<le> 0 \<and> (0::int) \<noteq> - 1)
   \<and> build_parquet example_env (Paths [''ok1'']) example_extract [''out''] False False (Some 0) None
         None example_state
       = (Inl (InvalidWorkers 0), example_state)
   \<and> (resolve_workers example_env (Some 2) = Inr 2 \<and> \<not> ((0::int) \<le> 3 \<and> (3::int) < 2))
   \<and> build_parquet example_env (Paths [''ok1'']) example_extract [''out''] False False (Some 2)
         (Some 3) None example_state
       = (Inl (InvalidWorkerId 3 2), example_state)
   \<and> (\<exists>err. build_parquet example_env (Paths [''ok1'']) example_extract [''out''] False True
               (Some 2) (Some 0) None example_state = (Inl err, example_state)
             \<and> is_ValueError err)"
proof -
  note T = configuration_checks [where e = example_env and src = "Paths [''ok1'']"
      and ex = example_extract and out = "[''out'']" and inc = False and mf = None
      and st = example_state]
  have h1: "((None :: int option) = None \<or> (None :: int option) = Some 1) \<and>
     prepare_output [''out''] False False None example_state = (Inr (), example_state)"
    by (simp add: prepare_output_def path_exists_def example_state_def)
  note a = T [where workers = None and ovw = False and ?st1.0 = example_state,
      THEN conjunct2, THEN conjunct2, THEN conjunct1, rule_format, OF h1]
  have h2: "(0::int) \<le> 0 \<and> (0::int) \<noteq> - 1" by simp
  note b = T [where w = 0 and ovw = False and wid = None,
      THEN conjunct2, THEN conjunct2, THEN conjunct2, THEN conjunct2, THEN conjunct1,
      rule_format, OF h2, THEN conjunct1]
  have h3: "resolve_workers example_env (Some 2) = Inr 2 \<and> \<not> ((0::int) \<le> 3 \<and> (3::int) < 2)"
    by (simp add: resolve_workers_def)
  note c = T [where workers = "Some 2" and W = 2 and i = 3 and ovw = False,
      THEN conjunct2, THEN conjunct2, THEN conjunct2, THEN conjunct2, THEN conjunct2,
      THEN conjunct1, rule_format, OF h3, THEN conjunct1]
  note d = T [where workers' = "Some 2" and j = 0,
      THEN conjunct2, THEN conjunct2, THEN conjunct2, THEN conjunct2, THEN conjunct2,
      THEN conjunct2]
  from h1 a h2 b h3 c d show ?thesis by blast
qed

subsection \<open>C6: failures of pooled workers are logged, not raised\<close>

text \<open>
  C6. For a call that has passed the checks and prepared the output. When
  \<open>worker_id\<close> is unset and \<open>workers > 1\<close>, the call returns normally whatever the
  workers do; one execution has been started for each id of \<open>0, ..., workers - 1\<close>;
  and the log has gained exactly one warning for each execution that raised, with
  the id of that execution and its exception. Otherwise (a \<open>worker_id\<close> is given, or
  there is one worker) the single worker runs in the calling process, its exception is
  the exception of the call, and nothing is logged.
\<close>

theorem pool_isolates_failures:
  assumes res: "resolve_workers e workers = Inr W"
    and chk: "check_worker_id wid W ovw = Inr ()"
    and prep: "prepare_output out inc ovw wid st = (Inr (), st1)"
  shows "(wid = None \<and> 1 < W \<longrightarrow>
           build_parquet e src ex out inc ovw workers wid mf st =
             (Inr (),
              run_pool (\<lambda>i. build_parquet_worker e i src ex out inc W mf)
                (map int [0..<nat W]) st1)
         \<and> started (snd (build_parquet e src ex out inc ovw workers wid mf st)) =
             started st1 @ map int [0..<nat W]
         \<and> log (snd (build_parquet e src ex out inc ovw workers wid mf st)) =
             log st1 @
             concat (map (\<lambda>k.
                 case fst (build_parquet_worker e (int k) src ex out inc W mf
                             (run_pool (\<lambda>i. build_parquet_worker e i src ex out inc W mf)
                                (map int [0..<k]) st1)) of
                   Inl exc \<Rightarrow> [(int k, exc)]
                 | Inr c \<Rightarrow> []) [0..<nat W]))
       \<and> (wid \<noteq> None \<or> W \<le> 1 \<longrightarrow>
           build_parquet e src ex out inc ovw workers wid mf st =
             run_inline (build_parquet_worker e (case wid of None \<Rightarrow> 0 | Some i \<Rightarrow> i)
                           src ex out inc W mf st1)
         \<and> (\<forall>exc. fst (build_parquet_worker e (case wid of None \<Rightarrow> 0 | Some i \<Rightarrow> i)
                           src ex out inc W mf st1) = Inl exc \<longrightarrow>
                fst (build_parquet e src ex out inc ovw workers wid mf st) = Inl exc)
         \<and> log (snd (build_parquet e src ex out inc ovw workers wid mf st)) = log st1)"
proof (intro conjI impI)
  let ?w = "\<lambda>i. build_parquet_worker e i src ex out inc W mf"
  have b: "build_parquet e src ex out inc ovw workers wid mf st = dispatch ?w W wid st1"
    using prep by (simp add: build_parquet_checked [OF res chk])
  {
    assume par: "wid = None \<and> 1 < W"
    then show p1: "build_parquet e src ex out inc ovw workers wid mf st =
        (Inr (), run_pool ?w (map int [0..<nat W]) st1)"
      unfolding b by (simp add: dispatch_def)
    show "started (snd (build_parquet e src ex out inc ovw workers wid mf st)) =
        started st1 @ map int [0..<nat W]"
      unfolding p1 by (simp add: pool_started [of ?w] worker_started)
    show "log (snd (build_parquet e src ex out inc ovw workers wid mf st)) =
        log st1 @
        concat (map (\<lambda>k.
            case fst (build_parquet_worker e (int k) src ex out inc W mf
                        (run_pool ?w (map int [0..<k]) st1)) of
              Inl exc \<Rightarrow> [(int k, exc)]
            | Inr c \<Rightarrow> []) [0..<nat W])"
      unfolding p1 by (simp add: pool_log [of ?w] worker_log)
  }
  {
    assume ser: "wid \<noteq> None \<or> W \<le> 1"
    then show s1: "build_parquet e src ex out inc ovw workers wid mf st =
        run_inline (?w (case wid of None \<Rightarrow> 0 | Some i \<Rightarrow> i) st1)"
      unfolding b by (auto simp: dispatch_def split: option.splits)
    show "\<forall>exc. fst (?w (case wid of None \<Rightarrow> 0 | Some i \<Rightarrow> i) st1) = Inl exc \<longrightarrow>
        fst (build_parquet e src ex out inc ovw workers wid mf st) = Inl exc"
      unfolding s1 by (simp add: run_inline_fst)
    show "log (snd (build_parquet e src ex out inc ovw workers wid mf st)) = log st1"
      unfolding s1 by (simp add: run_inline_snd worker_log)
  }
qed

text \<open>
  Three workers, of which worker 0 meets a failing input with \<open>max_failures = 0\<close>:
  the call returns normally, all three executions were started, and the log holds the
  failure of worker 0. The same source with one worker raises the failure.
\<close>

theorem pool_isolates_failures_witness:
  "resolve_workers example_env (Some 3) = Inr 3
   \<and> check_worker_id None 3 False = Inr ()
   \<and> prepare_output [''out''] False False None example_state = (Inr (), example_state)
   \<and> fst (build_parquet example_env (Paths [''bad'', ''x'', ''yy'']) example_extract [''out'']
             False False (Some 3) None (Some 0) example_state) = Inr ()
   \<and> started (snd (build_parquet example_env (Paths [''bad'', ''x'', ''yy'']) example_extract
                     [''out''] False False (Some 3) None (Some 0) example_state)) = [0, 1, 2]
   \<and> log (snd (build_parquet example_env (Paths [''bad'', ''x'', ''yy'']) example_extract
                 [''out''] False False (Some 3) None (Some 0) example_state))
       = [(0, ExtractionFailure ''bad'')]
   \<and> resolve_workers example_env None = Inr 1
   \<and> check_worker_id None 1 False = Inr ()
   \<and> fst (build_parquet example_env (Paths [''bad'', ''x'', ''yy'']) example_extract [''out'']
             False False None None (Some 0) example_state) = Inl (ExtractionFailure ''bad'')"
proof -
  have res: "resolve_workers example_env (Some 3) = Inr 3"
    by (simp add: resolve_workers_def)
  have chk: "check_worker_id None 3 False = Inr ()"
    by (simp add: check_worker_id_def)
  have prep: "prepare_output [''out''] False False None example_state = (Inr (), example_state)"
    by (simp add: prepare_output_def path_exists_def example_state_def)
  have par: "(None :: int option) = None \<and> (1::int) < 3" by simp
  note P = pool_isolates_failures [OF res chk prep, where src = "Paths [''bad'', ''x'', ''yy'']"
      and ex = example_extract and mf = "Some 0", THEN conjunct1, rule_format, OF par]
  have a: "fst (build_parquet example_env (Paths [''bad'', ''x'', ''yy'']) example_extract [''out'']
             False False (Some 3) None (Some 0) example_state) = Inr ()"
    using P [THEN conjunct1] by simp
  have b: "started (snd (build_parquet example_env (Paths [''bad'', ''x'', ''yy'']) example_extract
                     [''out''] False False (Some 3) None (Some 0) example_state)) = [0, 1, 2]"
    using P [THEN conjunct2, THEN conjunct1] by (simp add: upt_3 example_state_def)
  have p0: "partition_path example_env 0 [''out''] 3
      = [''part-20240305070809-0000-of-0003.parquet'', ''out'']"
    and p1: "partition_path example_env 1 [''out''] 3
      = [''part-20240305070809-0001-of-0003.parquet'', ''out'']"
    and p2: "partition_path example_env 2 [''out''] 3
      = [''part-20240305070809-0002-of-0003.parquet'', ''out'']"
    by (simp_all add: eval_format example_env_def)
  have w0: "build_parquet_worker example_env 0 (Paths [''bad'', ''x'', ''yy'']) example_extract
        [''out''] False 3 (Some 0) example_state
      = (Inl (ExtractionFailure ''bad''),
         \<lparr>files = [[''out''] \<mapsto> Dir], log = [], started = [0]\<rparr>)"
    unfolding worker_cases p0
    by (simp add: Let_def path_exists_def is_file_def pipeline_run_def worker_source_def
        source_items_def hash_partitioner_def example_extract_def example_state_def
        example_env_def)
  have w1: "build_parquet_worker example_env 1 (Paths [''bad'', ''x'', ''yy'']) example_extract
        [''out''] False 3 (Some 0)
        \<lparr>files = [[''out''] \<mapsto> Dir], log = [(0, ExtractionFailure ''bad'')], started = [0]\<rparr>
      = (Inr \<lparr>total = 1, succeeded = 1, failed = 0\<rparr>,
         \<lparr>files = [[''out''] \<mapsto> Dir,
                   [''part-20240305070809-0001-of-0003.parquet'', ''out'']
                     \<mapsto> File [[(''file_path'', ''x'')]]],
          log = [(0, ExtractionFailure ''bad'')], started = [0, 1]\<rparr>)"
    unfolding worker_cases p1
    by (simp add: Let_def path_exists_def is_file_def pipeline_run_def worker_source_def
        source_items_def hash_partitioner_def example_extract_def example_env_def)
  have w2: "fst (build_parquet_worker example_env 2 (Paths [''bad'', ''x'', ''yy'']) example_extract
        [''out''] False 3 (Some 0)
        \<lparr>files = [[''out''] \<mapsto> Dir,
                  [''part-20240305070809-0001-of-0003.parquet'', ''out'']
                    \<mapsto> File [[(''file_path'', ''x'')]]],
         log = [(0, ExtractionFailure ''bad'')], started = [0, 1]\<rparr>)
      = Inr \<lparr>total = 1, succeeded = 1, failed = 0\<rparr>"
    unfolding worker_cases p2
    by (simp add: Let_def path_exists_def is_file_def pipeline_run_def worker_source_def
        source_items_def hash_partitioner_def example_extract_def example_env_def)
  have c: "log (snd (build_parquet example_env (Paths [''bad'', ''x'', ''yy'']) example_extract
                 [''out''] False False (Some 3) None (Some 0) example_state))
       = [(0, ExtractionFailure ''bad'')]"
    using P [THEN conjunct2, THEN conjunct2]
    by (simp add: upt_3 upt_2 w0 w1 w2) (simp add: example_state_def)
  have res1: "resolve_workers example_env None = Inr 1"
    by (simp add: resolve_workers_def)
  have chk1: "check_worker_id None 1 False = Inr ()"
    by (simp add: check_worker_id_def)
  have ser: "(None :: int option) \<noteq> None \<or> (1::int) \<le> 1" by simp
  have p01: "partition_path example_env 0 [''out''] 1
      = [''part-20240305070809-0000-of-0001.parquet'', ''out'']"
    by (simp add: eval_format example_env_def)
  have w0: "fst (build_parquet_worker example_env (case None of None \<Rightarrow> 0 | Some i \<Rightarrow> i)
               (Paths [''bad'', ''x'', ''yy'']) example_extract [''out''] False 1 (Some 0)
               example_state) = Inl (ExtractionFailure ''bad'')"
    by (simp add: eval_build p01 example_extract_def example_state_def)
  from pool_isolates_failures [OF res1 chk1 prep, where src = "Paths [''bad'', ''x'', ''yy'']"
      and ex = example_extract and mf = "Some 0", THEN conjunct2, rule_format, OF ser,
      THEN conjunct2, THEN conjunct1, rule_format, OF w0]
  have d: "fst (build_parquet example_env (Paths [''bad'', ''x'', ''yy'']) example_extract [''out'']
             False False None None (Some 0) example_state) = Inl (ExtractionFailure ''bad'')" .
  from res chk prep a b c res1 chk1 d show ?thesis by (intro conjI)
qed

subsection \<open>C7: the incremental filter\<close>



subsection \<open>C8: \<open>workers=-1\<close>\<close>



subsection \<open>C9: an empty source still publishes a partition\<close>



subsection \<open>C10: a worker id without a number of workers\<close>

text \<open>
  C10. A call with a \<open>worker_id\<close> and \<open>workers=None\<close> is the call with \<open>workers=1\<close>:
  nothing rejects the missing number of workers. With \<open>worker_id=0\<close> the call runs
  worker 0 of 1 in the calling process, unless \<open>overwrite\<close> is set, which is rejected
  for that reason; the source of that worker is not filtered by the partitioner.
  Any other \<open>worker_id\<close> raises the out-of-range \<open>ValueError\<close>.
\<close>

theorem worker_id_without_workers:
  "build_parquet e src ex out inc ovw None wid mf st =
     build_parquet e src ex out inc ovw (Some 1) wid mf st
   \<and> build_parquet e src ex out inc ovw None (Some 0) mf st =
       (if ovw then (Inl OverwriteWithWorkerId, st)
        else run_inline (build_parquet_worker e 0 src ex out inc 1 mf st))
   \<and> worker_source e 0 src out inc 1 fs =
       (if inc \<and> path_exists fs out
        then filter (file_mod_index (from_parquet e fs out) (mtime e)) (source_items e src)
        else source_items e src)
   \<and> (i \<noteq> 0 \<longrightarrow>
        build_parquet e src ex out inc ovw None (Some i) mf st = (Inl (InvalidWorkerId i 1), st))"
proof (intro conjI impI)
  show "build_parquet e src ex out inc ovw None wid mf st =
     build_parquet e src ex out inc ovw (Some 1) wid mf st"
    by (simp add: build_parquet_def resolve_workers_def)
  show "build_parquet e src ex out inc ovw None (Some 0) mf st =
       (if ovw then (Inl OverwriteWithWorkerId, st)
        else run_inline (build_parquet_worker e 0 src ex out inc 1 mf st))"
    by (simp add: build_parquet_def resolve_workers_def check_worker_id_def
        prepare_output_inplace dispatch_def)
  show "worker_source e 0 src out inc 1 fs =
       (if inc \<and> path_exists fs out
        then filter (file_mod_index (from_parquet e fs out) (mtime e)) (source_items e src)
        else source_items e src)"
    by (simp add: worker_source_def Let_def)
next
  assume "i \<noteq> 0"
  then show "build_parquet e src ex out inc ovw None (Some i) mf st =
      (Inl (InvalidWorkerId i 1), st)"
    by (auto simp: build_parquet_def resolve_workers_def check_worker_id_def)
qed

text \<open>
  With \<open>workers=None\<close>, \<open>worker_id=1\<close> is rejected and \<open>worker_id=0\<close> writes the
  partition \<open>0000-of-0001\<close> with both inputs.
\<close>

theorem worker_id_without_workers_witness:
  "(1::int) \<noteq> 0
   \<and> build_parquet example_env (Paths [''ok1'', ''ok2'']) example_extract [''out''] False False None
         (Some 1) None example_state
       = (Inl (InvalidWorkerId 1 1), example_state)
   \<and> build_parquet example_env (Paths [''ok1'', ''ok2'']) example_extract [''out''] False False None
         (Some 0) None example_state
       = (Inr (),
          \<lparr>files = [[''out''] \<mapsto> Dir,
                    [''part-20240305070809-0000-of-0001.parquet'', ''out'']
                      \<mapsto> File [[(''file_path'', ''ok1'')], [(''file_path'', ''ok2'')]]],
           log = [], started = [0]\<rparr>)"
proof -
  note T = worker_id_without_workers [where e = example_env and src = "Paths [''ok1'', ''ok2'']"
      and ex = example_extract and out = "[''out'']" and inc = False and ovw = False
      and mf = None and st = example_state]
  have h: "(1::int) \<noteq> 0" by simp
  note a = T [where i = 1, THEN conjunct2, THEN conjunct2, THEN conjunct2, rule_format, OF h]
  have p: "partition_path example_env 0 [''out''] 1
      = [''part-20240305070809-0000-of-0001.parquet'', ''out'']"
    by (simp add: eval_format example_env_def)
  have run: "build_parquet_worker example_env 0 (Paths [''ok1'', ''ok2'']) example_extract [''out'']
         False 1 None example_state
       = (Inr \<lparr>total = 2, succeeded = 2, failed = 0\<rparr>,
          \<lparr>files = [[''out''] \<mapsto> Dir,
                    [''part-20240305070809-0000-of-0001.parquet'', ''out'']
                      \<mapsto> File [[(''file_path'', ''ok1'')], [(''file_path'', ''ok2'')]]],
           log = [], started = [0]\<rparr>)"
    unfolding worker_cases p
    by (simp add: Let_def path_exists_def is_file_def pipeline_run_def worker_source_def
        source_items_def example_extract_def example_state_def)
  from T [THEN conjunct2, THEN conjunct1]
  have b: "build_parquet example_env (Paths [''ok1'', ''ok2'']) example_extract [''out''] False False None
         (Some 0) None example_state
       = (Inr (),
          \<lparr>files = [[''out''] \<mapsto> Dir,
                    [''part-20240305070809-0000-of-0001.parquet'', ''out'']
                      \<mapsto> File [[(''file_path'', ''ok1'')], [(''file_path'', ''ok2'')]]],
           log = [], started = [0]\<rparr>)"
    by (simp add: run run_inline_def)
  from h a b show ?thesis by (intro conjI)
qed

end
